theory Spec2Isabelle
  imports Main "HOL-Library.Word"
begin

unbundle bit_operations_syntax

section \<open>The WebSocket client of websocketclient.js\<close>

text \<open>
  A shallow embedding of \<^verbatim>\<open>websocketclient.js\<close>: the client object is a record, every
  method is a function from the object to the updated object, and everything the object
  does to the outside (socket writes, events delivered to subscribers, writes into the
  zlib contexts, timers) is appended to a log of effects kept in the object.
  Asynchronous callbacks (the flush callbacks of zlib, the reconnect timer) are
  functions of their own, applied when the outside world fires them.
\<close>

subsection \<open>Values\<close>

type_synonym byte = "8 word"
type_synonym buffer = "byte list"

text \<open>The JavaScript values the client's interface is called with.\<close>

datatype jsval =
    JUndefined
  | JNull
  | JBool bool
  | JNum int
  | JStr string
  | JBuf buffer
  | JObj nat

fun truthy :: "jsval \<Rightarrow> bool" where
  "truthy JUndefined = False"
| "truthy JNull = False"
| "truthy (JBool b) = b"
| "truthy (JNum n) = (n \<noteq> 0)"
| "truthy (JStr s) = (s \<noteq> [])"
| "truthy (JBuf b) = True"
| "truthy (JObj n) = True"

text \<open>\<^verbatim>\<open>typeof(v) === 'object'\<close>\<close>

fun typeof_object :: "jsval \<Rightarrow> bool" where
  "typeof_object JNull = True"
| "typeof_object (JBuf b) = True"
| "typeof_object (JObj n) = True"
| "typeof_object v = False"

text \<open>\<^verbatim>\<open>v == true\<close> (loose equality with the boolean true)\<close>

fun loose_eq_true :: "jsval \<Rightarrow> bool" where
  "loose_eq_true (JBool b) = b"
| "loose_eq_true (JNum n) = (n = 1)"
| "loose_eq_true (JStr s) = (s = ''1'')"
| "loose_eq_true v = False"

datatype error = TypeError | ReferenceError

subsection \<open>Collaborators\<close>

text \<open>
  The platform and framework functions the client calls but does not define: the UTF-8
  codec of Buffer, the URI component codec, JSON, the payload encryptor. They are
  parameters of the model. \<open>global_self\<close> is the value of the expression
  \<^verbatim>\<open>self.options.masking\<close> where no local variable \<^verbatim>\<open>self\<close> is declared, so that the
  identifier is looked up in the global scope: \<open>Inl ReferenceError\<close> when no global of
  that name exists (as on Node.js), where evaluating the expression throws.
\<close>

record env =
  toString_utf8 :: "buffer \<Rightarrow> string"
  Buffer_from :: "jsval \<Rightarrow> buffer option"
  decodeURIComponent :: "string \<Rightarrow> string option"
  encodeURIComponent :: "jsval \<Rightarrow> string"
  encrypt_data :: "jsval \<Rightarrow> string \<Rightarrow> jsval"
  decrypt_data :: "string \<Rightarrow> string \<Rightarrow> string"
  isJSON :: "string \<Rightarrow> bool"
  parseJSON :: "string \<Rightarrow> jsval"
  JSON_stringify :: "jsval \<Rightarrow> jsval \<Rightarrow> jsval"
  json2replacer :: jsval
  to_string :: "jsval \<Rightarrow> string"
  global_self :: "error + bool"

text \<open>\<^verbatim>\<open>$decodeURIComponent\<close>: the value is returned unchanged when decoding throws.\<close>

definition safe_decodeURIComponent :: "env \<Rightarrow> string \<Rightarrow> string" where
  "safe_decodeURIComponent e v =
     (case decodeURIComponent e v of Some r \<Rightarrow> r | None \<Rightarrow> v)"

subsection \<open>Frames\<close>

text \<open>
  Modelled from the spec: \<^verbatim>\<open>U.getWebSocketFrame(code, message, type, compress, mask)\<close> of
  utils.js, which is not among the sources. The spec (4.2, 4.5, 6) describes it as the
  frame builder \<^verbatim>\<open>buildFrame(code, payload, opcode, compressed, masked)\<close>: a frame with the
  given opcode and payload, FIN = 1, RSV1 set iff the frame is compressed, masked per
  the flag with a random key, and for a close frame the status code big-endian in the
  first two bytes of the payload and the reason thereafter. The mask key is random, so
  the frame is kept in structured form: the payload before masking and the flag.
\<close>

record wsframe =
  f_fin :: bool
  f_rsv1 :: bool
  f_opcode :: nat
  f_masked :: bool
  f_payload :: buffer

fun payload_bytes :: "jsval \<Rightarrow> buffer" where
  "payload_bytes (JStr s) = map of_char s"
| "payload_bytes (JBuf b) = b"
| "payload_bytes v = []"

definition getWebSocketFrame :: "nat \<Rightarrow> jsval \<Rightarrow> nat \<Rightarrow> bool \<Rightarrow> bool \<Rightarrow> wsframe" where
  "getWebSocketFrame code message type compress masked =
     \<lparr> f_fin = True, f_rsv1 = compress, f_opcode = type, f_masked = masked,
       f_payload = (if code \<noteq> 0 then [of_nat (code div 256), of_nat code] else [])
                   @ payload_bytes message \<rparr>"

text \<open>
  Modelled from the spec: \<^verbatim>\<open>U.getMessageLength(buffer, isLE)\<close> of utils.js, which is not
  among the sources. The spec (4.2, 4.3 step 3): the payload length from the 7-bit
  length field, with the extended length of 2 or 8 big-endian bytes for the values 126
  and 127, and a value \<open>\<le> 0\<close> when the extended length is not yet available.
\<close>

fun be_value :: "buffer \<Rightarrow> nat" where
  "be_value [] = 0"
| "be_value (b # bs) = unat b * 256 ^ length bs + be_value bs"

definition getMessageLength :: "buffer \<Rightarrow> int" where
  "getMessageLength buf =
     (let length7 = unat ((buf ! 1) AND 0x7f) in
      if length7 = 126 then (if length buf < 4 then - 1 else int (be_value (take 2 (drop 2 buf))))
      else if length7 = 127 then (if length buf < 10 then - 1 else int (be_value (take 8 (drop 2 buf))))
      else int length7)"

subsection \<open>The client object\<close>

text \<open>
  The fields carry a prefix where the source's name is taken in HOL or is used by two
  objects: \<open>opt_\<close> for \<^verbatim>\<open>this.options\<close>, \<open>cur_\<close> for \<^verbatim>\<open>this.current\<close>. \<open>opt_length = 0\<close>
  and \<open>opt_encrypt = []\<close> stand for the falsy values of an option that is not set.
\<close>

record options =
  opt_type :: string
  opt_masking :: bool
  opt_compress :: bool
  opt_reconnect :: nat
  opt_encodedecode :: bool
  opt_encrypt :: string
  opt_length :: nat

text \<open>
  The receive accumulator. A field that is undefined or null in the source is \<open>None\<close>;
  \<open>cur_final\<close> and \<open>cur_isMask\<close> are only read in boolean contexts, where undefined
  is false, and \<open>cur_length\<close> only as the start of a slice, where undefined is 0.
\<close>

record current =
  cur_buffer :: "buffer option"
  cur_type :: "nat option"
  cur_type2 :: "nat option"
  cur_final :: bool
  cur_isMask :: bool
  cur_mask :: "buffer option"
  cur_data :: "buffer option"
  cur_length :: nat
  cur_body :: "buffer option"

text \<open>What the client does to the outside world.\<close>

datatype effect =
    SocketWrite wsframe
  | SocketEnd wsframe
  | SocketDestroy
  | RequestAbort
  | SocketRemoveAllListeners
  | Emit string "jsval list" "nat list"
  | InflateWrite buffer
  | InflateFlush
  | InflateRemoveAllListeners
  | DeflateWrite buffer
  | DeflateFlush
  | DeflateRemoveAllListeners
  | SetTimeout nat
  | HttpGet
  | Stats string

text \<open>
  A subscriber is a handler (identified by a number) with its \<^verbatim>\<open>$once\<close> flag;
  \<^verbatim>\<open>this.$events[name]\<close> undefined is the empty list. \<open>u_isClosed\<close> is the source's
  \<^verbatim>\<open>_isClosed\<close>, \<open>dollar_ping\<close> its \<^verbatim>\<open>$ping\<close>, and \<open>type_field\<close> its \<^verbatim>\<open>this.type\<close>, which
  the constructor does not set and no method assigns. \<open>inflate\<close> and \<open>deflate\<close> say
  whether the zlib context exists. A buffer of the inflate queue is paired with its
  \<^verbatim>\<open>$continue\<close> flag.
\<close>

record ws =
  current :: current
  events :: "string \<Rightarrow> (nat \<times> bool) list"
  reconnect :: nat
  closed :: bool
  options :: options
  typebuffer :: bool
  istext :: bool
  type_field :: jsval
  isClosed :: bool
  u_isClosed :: bool
  dollar_ping :: "bool option"
  closemessage :: "string option"
  closecode :: "nat option"
  inflate :: bool
  inflatepending :: "(buffer \<times> bool) list"
  inflatelock :: bool
  inflatechunks :: "buffer list option"
  inflatechunkslength :: nat
  deflate :: bool
  deflatepending :: "buffer list"
  deflatelock :: bool
  deflatechunks :: "buffer list option"
  deflatechunkslength :: nat
  effects :: "effect list"

definition WEBSOCKET_COMPRESS :: buffer where
  "WEBSOCKET_COMPRESS = [0x00, 0x00, 0xFF, 0xFF]"

definition do_effect :: "effect \<Rightarrow> ws \<Rightarrow> ws" where
  "do_effect x s = s\<lparr>effects := effects s @ [x]\<rparr>"

text \<open>The constructor \<^verbatim>\<open>WebSocketClient()\<close>.\<close>

definition WebSocketClient :: ws where
  "WebSocketClient =
     \<lparr> current = \<lparr> cur_buffer = None, cur_type = None, cur_type2 = None, cur_final = False,
                   cur_isMask = False, cur_mask = None, cur_data = None, cur_length = 0,
                   cur_body = None \<rparr>,
       events = (\<lambda>name. []),
       reconnect = 0,
       closed = True,
       options = \<lparr> opt_type = ''json'', opt_masking = False, opt_compress = True,
                   opt_reconnect = 3000, opt_encodedecode = False, opt_encrypt = [],
                   opt_length = 0 \<rparr>,
       typebuffer = False,
       istext = False,
       type_field = JUndefined,
       isClosed = False,
       u_isClosed = False,
       dollar_ping = None,
       closemessage = None,
       closecode = None,
       inflate = False,
       inflatepending = [],
       inflatelock = False,
       inflatechunks = None,
       inflatechunkslength = 0,
       deflate = False,
       deflatepending = [],
       deflatelock = False,
       deflatechunks = None,
       deflatechunkslength = 0,
       effects = [] \<rparr>"

text \<open>\<^verbatim>\<open>on(name, fn)\<close> and \<^verbatim>\<open>once(name, fn)\<close>: the handler is appended to the event's list.\<close>

definition on_event :: "string \<Rightarrow> nat \<times> bool \<Rightarrow> ws \<Rightarrow> ws" where
  "on_event name fn s = s\<lparr>events := (events s)(name := events s name @ [fn])\<rparr>"

text \<open>
  \<^verbatim>\<open>emit(name, ...)\<close>: every handler of the event is called in order; when one of them
  is a once-handler, the once-handlers are removed afterwards.
\<close>

definition emit :: "string \<Rightarrow> jsval list \<Rightarrow> ws \<Rightarrow> ws" where
  "emit name args s =
     (let evt = events s name in
      if evt \<noteq> [] then
        (let s1 = do_effect (Emit name args (map fst evt)) s in
         if list_ex snd evt
         then s1\<lparr>events := (events s1)(name := filter (\<lambda>h. \<not> snd h) evt)\<rparr>
         else s1)
      else s)"

text \<open>\<^verbatim>\<open>this.$events.name && this.emit(name, ...)\<close>\<close>

definition emit_if :: "string \<Rightarrow> jsval list \<Rightarrow> ws \<Rightarrow> ws" where
  "emit_if name args s = (if events s name \<noteq> [] then emit name args s else s)"

text \<open>
  \<^verbatim>\<open>connect(url, protocol, origin)\<close>: the part that touches the client object; the
  request itself is the effect \<open>HttpGet\<close>.
\<close>

definition connect :: "ws \<Rightarrow> ws" where
  "connect s =
     (let tb = (opt_type (options s) = ''buffer'');
          s1 = s\<lparr>typebuffer := tb,
                 istext := (opt_type (options s) \<noteq> ''binary'' \<and> \<not> tb)\<rparr>
      in do_effect HttpGet (do_effect (Stats ''online++'') s1))"

text \<open>
  The handler of the request's upgrade event. \<open>accept_ok\<close> says whether the response's
  \<^verbatim>\<open>sec-websocket-accept\<close> equals the digest, \<open>deflate_offered\<close> whether its
  \<^verbatim>\<open>sec-websocket-extensions\<close> contains \<^verbatim>\<open>-deflate\<close>; the socket's listeners are
  \<open>ondata\<close>, \<open>onerror\<close> and \<open>websocket_close\<close> below.
\<close>

definition upgrade :: "bool \<Rightarrow> bool \<Rightarrow> ws \<Rightarrow> ws" where
  "upgrade accept_ok deflate_offered s =
     (let compress = (opt_compress (options s) \<and> deflate_offered) in
      if \<not> accept_ok then
        do_effect RequestAbort
          (do_effect SocketDestroy
             (emit_if ''error'' [JStr ''Invalid server key.'']
                (do_effect SocketDestroy s\<lparr>closed := True\<rparr>)))
      else
        (let s1 = s\<lparr>closed := False\<rparr>;
             s2 = (if compress
                   then s1\<lparr>inflatepending := [], inflatelock := False, inflate := True,
                           deflatepending := [], deflatelock := False, deflate := True\<rparr>
                   else s1)
         in emit_if ''open'' [] s2))"

subsection \<open>Closing\<close>

text \<open>\<^verbatim>\<open>close(message, code)\<close>\<close>

definition close :: "env \<Rightarrow> jsval \<Rightarrow> nat option \<Rightarrow> ws \<Rightarrow> ws" where
  "close e message code s =
     (let s1 = (if message \<noteq> JBool True
                then s\<lparr>options := (options s)\<lparr>opt_reconnect := 0\<rparr>\<rparr> else s);
          message1 = (if message \<noteq> JBool True then message else JUndefined)
      in if \<not> isClosed s1 then
           (let message2 = (if truthy message1 \<and> opt_encodedecode (options s1)
                            then JStr (encodeURIComponent e message1) else message1)
            in do_effect
                 (SocketEnd (getWebSocketFrame
                    (case code of None \<Rightarrow> 1000 | Some c \<Rightarrow> if c = 0 then 1000 else c)
                    (if truthy message2 then message2 else JStr [])
                    0x08 False (opt_masking (options s1))))
                 (s1\<lparr>isClosed := True\<rparr>))
         else s1)"

text \<open>\<^verbatim>\<open>$onclose()\<close>\<close>

definition onclose :: "ws \<Rightarrow> ws" where
  "onclose s =
     (if u_isClosed s then s
      else
        (let s1 = s\<lparr>isClosed := True, u_isClosed := True\<rparr>;
             s2 = (if inflate s1
                   then (do_effect InflateRemoveAllListeners s1)
                          \<lparr>inflate := False, inflatechunks := None\<rparr>
                   else s1);
             s3 = (if deflate s2
                   then (do_effect DeflateRemoveAllListeners s2)
                          \<lparr>deflate := False, deflatechunks := None\<rparr>
                   else s2);
             s4 = emit_if ''close''
                    [case closecode s3 of None \<Rightarrow> JUndefined | Some c \<Rightarrow> JNum (int c),
                     case closemessage s3 of None \<Rightarrow> JUndefined | Some m \<Rightarrow> JStr m] s3
         in do_effect SocketRemoveAllListeners s4))"

text \<open>\<^verbatim>\<open>$onerror(err)\<close>\<close>

definition onerror :: "jsval \<Rightarrow> ws \<Rightarrow> ws" where
  "onerror err s =
     (let s1 = emit_if ''error'' [err] s in
      if \<not> isClosed s1 then onclose (s1\<lparr>isClosed := True\<rparr>) else s1)"

text \<open>
  \<^verbatim>\<open>websocket_close\<close>, the listener of the socket's close and end events. The timer it
  sets runs \<open>reconnect_timer\<close>.
\<close>

definition websocket_close :: "ws \<Rightarrow> ws" where
  "websocket_close s =
     (let s1 = do_effect (Stats ''online--'') (onclose (s\<lparr>closed := True\<rparr>)) in
      if opt_reconnect (options s1) \<noteq> 0
      then do_effect (SetTimeout (opt_reconnect (options s1))) s1
      else s1)"

definition reconnect_timer :: "ws \<Rightarrow> ws" where
  "reconnect_timer s =
     connect (s\<lparr>isClosed := False, u_isClosed := False, reconnect := reconnect s + 1\<rparr>)"

subsection \<open>Receiving\<close>

text \<open>\<^verbatim>\<open>buffer.slice(from, to)\<close> and \<^verbatim>\<open>buffer.copy(target, 0, from, to)\<close> into a fresh target.\<close>

definition buf_slice :: "buffer \<Rightarrow> nat \<Rightarrow> nat \<Rightarrow> buffer" where
  "buf_slice buf from to = take (to - from) (drop from buf)"

text \<open>
  The loop \<^verbatim>\<open>for (i = 0; i < length; i++) buf[i] = buf[i] ^ mask[i % 4]\<close>. A read past the
  end of the mask is undefined in the source, and \<^verbatim>\<open>x ^ undefined\<close> is \<^verbatim>\<open>x\<close>.
\<close>

definition unmask :: "buffer \<Rightarrow> buffer \<Rightarrow> buffer" where
  "unmask msk buf =
     map (\<lambda>i. if i mod 4 < length msk then (buf ! i) XOR (msk ! (i mod 4)) else buf ! i)
       [0..<length buf]"

text \<open>
  \<^verbatim>\<open>buffer_concat(buffers, length)\<close>: a zero-filled buffer of the given length, into which
  the buffers are copied one after the other; a copy stops at the end of the target.
\<close>

definition buffer_concat :: "buffer list \<Rightarrow> nat \<Rightarrow> buffer" where
  "buffer_concat buffers n = take n (concat buffers @ replicate n 0)"

text \<open>
  \<^verbatim>\<open>$parse()\<close>: the result is the truth value of what the source returns (a bare
  \<^verbatim>\<open>return\<close> is false) and the updated object.
\<close>

definition parse :: "env \<Rightarrow> ws \<Rightarrow> bool \<times> ws" where
  "parse e s =
     (case cur_buffer (current s) of
        None \<Rightarrow> (False, s)
      | Some buf \<Rightarrow>
          if length buf \<le> 2 then (False, s)
          else
            (let ty = unat ((buf ! 0) AND 0x0f);
                 fin = (drop_bit 7 ((buf ! 0) AND 0x80) = 1);
                 ismask = (drop_bit 7 ((buf ! 1) AND 0xfe) = 1);
                 s1 = s\<lparr>current := (current s)\<lparr>cur_type := Some ty, cur_final := fin,
                                                cur_isMask := ismask\<rparr>\<rparr>;
                 len = getMessageLength buf
             in if len \<le> 0 then (False, s1)
                else
                  (let index7 = unat ((buf ! 1) AND 0x7f);
                       index = (if index7 = 126 then 4 else if index7 = 127 then 10 else 2)
                               + (if ismask then 4 else 0);
                       mlength = index + nat len
                   in if opt_length (options s1) \<noteq> 0 \<and> mlength > opt_length (options s1)
                      then (False, close e (JStr ''Frame is too large'') (Some 1009) s1)
                      else if length buf < mlength then (False, s1)
                      else
                        (let s2 = s1\<lparr>current := (current s1)\<lparr>cur_length := mlength\<rparr>\<rparr> in
                         if ty \<noteq> 0x09 \<and> ty \<noteq> 0x0A then
                           (let s3 = (if ismask
                                      then s2\<lparr>current := (current s2)
                                             \<lparr>cur_mask := Some (buf_slice buf (index - 4) index)\<rparr>\<rparr>
                                      else s2)
                            in if inflate s3 then
                                 (let raw = buf_slice buf index mlength;
                                      b = (if ismask
                                           then unmask (case cur_mask (current s3) of
                                                          Some m \<Rightarrow> m | None \<Rightarrow> []) raw
                                           else raw)
                                  in (True, s3\<lparr>inflatepending :=
                                                 inflatepending s3 @ [(b, \<not> fin)]\<rparr>))
                               else
                                 (True, s3\<lparr>current := (current s3)
                                           \<lparr>cur_data := Some (buf_slice buf index mlength)\<rparr>\<rparr>))
                         else (True, s2)))))"

text \<open>\<^verbatim>\<open>$readbody()\<close>: the frame's payload, un-masked when the frame is masked.\<close>

definition readbody :: "ws \<Rightarrow> buffer" where
  "readbody s =
     (let dat = (case cur_data (current s) of Some d \<Rightarrow> d | None \<Rightarrow> []) in
      if cur_isMask (current s)
      then unmask (case cur_mask (current s) of Some m \<Rightarrow> m | None \<Rightarrow> []) dat
      else dat)"

text \<open>
  \<^verbatim>\<open>$decode()\<close>. Every caller has just stored a buffer in \<^verbatim>\<open>current.body\<close>; for a body
  that is null the model leaves the object unchanged.
\<close>

definition decode_text :: "env \<Rightarrow> ws \<Rightarrow> buffer \<Rightarrow> string" where
  "decode_text e s dat =
     (let d0 = toString_utf8 e dat;
          d1 = (if opt_encodedecode (options s) then safe_decodeURIComponent e d0 else d0)
      in if opt_encrypt (options s) \<noteq> [] then decrypt_data e d1 (opt_encrypt (options s))
         else d1)"

definition decode :: "env \<Rightarrow> ws \<Rightarrow> ws" where
  "decode e s =
     (case cur_body (current s) of
        None \<Rightarrow> s
      | Some dat \<Rightarrow>
          (let s1 = do_effect (Stats ''message++'') s in
           if typebuffer s1 then emit ''message'' [JBuf dat] s1
           else
             (let s2 =
                (if opt_type (options s1) = ''binary'' \<or> opt_type (options s1) = ''buffer''
                 then emit ''message'' [JBuf dat] s1
                 else if opt_type (options s1) = ''json''
                 then (let d = decode_text e s1 dat in
                       if isJSON e d
                       then (let tmp = parseJSON e d in
                             if tmp \<noteq> JUndefined then emit ''message'' [tmp] s1 else s1)
                       else s1)
                 else emit ''message'' [JStr (decode_text e s1 dat)] s1)
              in s2\<lparr>current := (current s2)\<lparr>cur_body := None\<rparr>\<rparr>)))"

text \<open>
  \<^verbatim>\<open>parseInflate()\<close> up to the call of \<^verbatim>\<open>flush\<close>, and the callback it passes to
  \<^verbatim>\<open>flush\<close>, which zlib runs later; \<open>continue\<close> is the \<^verbatim>\<open>$continue\<close> flag of the buffer
  the callback has captured. Between the two, zlib delivers the inflated chunks to
  \<open>websocket_inflate\<close>.
\<close>

definition parseInflate :: "ws \<Rightarrow> ws" where
  "parseInflate s =
     (if inflatelock s then s
      else
        (case inflatepending s of
           [] \<Rightarrow> s
         | buf # rest \<Rightarrow>
             (let s1 = s\<lparr>inflatepending := rest, inflatechunks := Some [],
                         inflatechunkslength := 0, inflatelock := True\<rparr>;
                  s2 = do_effect (InflateWrite (fst buf)) s1;
                  s3 = (if \<not> snd buf then do_effect (InflateWrite WEBSOCKET_COMPRESS) s2
                        else s2)
              in do_effect InflateFlush s3)))"

definition websocket_inflate :: "buffer \<Rightarrow> ws \<Rightarrow> error + ws" where
  "websocket_inflate dat s =
     (case inflatechunks s of
        None \<Rightarrow> Inl TypeError
      | Some chunks \<Rightarrow>
          Inr (s\<lparr>inflatechunks := Some (chunks @ [dat]),
                 inflatechunkslength := inflatechunkslength s + length dat\<rparr>))"

definition append_body :: "buffer \<Rightarrow> ws \<Rightarrow> ws" where
  "append_body dat s =
     s\<lparr>current := (current s)
        \<lparr>cur_body := (case cur_body (current s) of
                        Some b \<Rightarrow> Some (b @ dat) | None \<Rightarrow> Some dat)\<rparr>\<rparr>"

definition parseInflate_flushed :: "env \<Rightarrow> bool \<Rightarrow> ws \<Rightarrow> ws" where
  "parseInflate_flushed e continue s =
     (case inflatechunks s of
        None \<Rightarrow> s
      | Some chunks \<Rightarrow>
          (let dat = buffer_concat chunks (inflatechunkslength s);
               s1 = s\<lparr>inflatechunks := None, inflatelock := False\<rparr>
           in if opt_length (options s1) \<noteq> 0 \<and> length dat > opt_length (options s1)
              then close e (JStr ''Frame is too large'') (Some 1009) s1
              else
                (let s2 = append_body dat s1;
                     s3 = (if \<not> continue then decode e s2 else s2)
                 in parseInflate s3)))"

text \<open>
  The body of the cases \<^verbatim>\<open>0x01\<close> (text) and \<^verbatim>\<open>0x02\<close> (binary) of \<^verbatim>\<open>$ondata\<close>; the source
  repeats the same statements in both.
\<close>

definition on_data_frame :: "env \<Rightarrow> ws \<Rightarrow> ws" where
  "on_data_frame e s =
     (if inflate s then (if cur_final (current s) then parseInflate s else s)
      else
        (let s1 = append_body (case cur_data (current s) of Some d \<Rightarrow> d | None \<Rightarrow> []) s in
         if cur_final (current s1) then decode e s1 else s1))"

text \<open>The case \<^verbatim>\<open>0x08\<close> (close) of \<^verbatim>\<open>$ondata\<close>.\<close>

definition on_close_frame :: "env \<Rightarrow> ws \<Rightarrow> ws" where
  "on_close_frame e s =
     (let buf = (case cur_buffer (current s) of Some b \<Rightarrow> b | None \<Rightarrow> []);
          m0 = toString_utf8 e (drop 4 buf);
          code = (case drop 2 buf of
                    [] \<Rightarrow> 0
                  | [a] \<Rightarrow> unat a * 256
                  | a # b # rest \<Rightarrow> unat a * 256 + unat b);
          m1 = (if m0 \<noteq> [] \<and> opt_encodedecode (options s)
                then safe_decodeURIComponent e m0 else m0)
      in close e JUndefined None (s\<lparr>closemessage := Some m1, closecode := Some code\<rparr>))"

text \<open>The cases \<^verbatim>\<open>0x09\<close> (ping) and \<^verbatim>\<open>0x0a\<close> (pong) of \<^verbatim>\<open>$ondata\<close>.\<close>

definition on_ping_frame :: "ws \<Rightarrow> ws" where
  "on_ping_frame s =
     (let s1 = do_effect (SocketWrite (getWebSocketFrame 0 (JStr ''PONG'') 0x0A False
                                         (opt_masking (options s)))) s
      in s1\<lparr>current := (current s1)\<lparr>cur_buffer := None\<rparr>, dollar_ping := Some True\<rparr>)"

definition on_pong_frame :: "ws \<Rightarrow> ws" where
  "on_pong_frame s =
     s\<lparr>dollar_ping := Some True, current := (current s)\<lparr>cur_buffer := None\<rparr>\<rparr>"

text \<open>
  \<^verbatim>\<open>$ondata\<close> between the call of \<^verbatim>\<open>$parse\<close> and the slice of the accumulator: the
  message type of a fragmented message is kept, and the frame is dispatched by opcode.
\<close>

definition dispatch :: "env \<Rightarrow> ws \<Rightarrow> ws" where
  "dispatch e s =
     (let s1 = (if \<not> cur_final (current s) \<and> cur_type (current s) \<noteq> Some 0x00
                then s\<lparr>current := (current s)\<lparr>cur_type2 := cur_type (current s)\<rparr>\<rparr>
                else s);
          sel = (if cur_type (current s1) = Some 0x00 then cur_type2 (current s1)
                 else cur_type (current s1))
      in if sel = Some 0x01 then on_data_frame e s1
         else if sel = Some 0x02 then on_data_frame e s1
         else if sel = Some 0x08 then on_close_frame e s1
         else if sel = Some 0x09 then on_ping_frame s1
         else if sel = Some 0x0a then on_pong_frame s1
         else s1)"

text \<open>The start of \<^verbatim>\<open>$ondata(data)\<close>: the chunk is appended to the accumulator.\<close>

definition accumulate :: "buffer option \<Rightarrow> ws \<Rightarrow> ws" where
  "accumulate dat s =
     (case dat of
        None \<Rightarrow> s
      | Some d \<Rightarrow>
          s\<lparr>current := (current s)
             \<lparr>cur_buffer := (case cur_buffer (current s) of
                               Some b \<Rightarrow> Some (b @ d) | None \<Rightarrow> Some d)\<rparr>\<rparr>)"

definition unconsumed :: "ws \<Rightarrow> buffer" where
  "unconsumed s = (case cur_buffer (current s) of Some b \<Rightarrow> b | None \<Rightarrow> [])"

text \<open>
  \<^verbatim>\<open>$ondata(data)\<close>. After a frame has been dispatched the accumulator is sliced past
  the frame and, when bytes remain, the handler runs again without a chunk. A frame
  that \<^verbatim>\<open>$parse\<close> accepts is at least three bytes long, which is why the recursion ends.
\<close>

lemma close_current [simp]: "current (close e m c s) = current s"
  by (simp add: close_def do_effect_def Let_def)

lemma emit_current [simp]: "current (emit n a s) = current s"
  by (simp add: emit_def do_effect_def Let_def)

lemma parse_True:
  assumes "parse e s = (True, s')"
  shows "cur_buffer (current s') = cur_buffer (current s) \<and> 3 \<le> cur_length (current s')"
  using assms
  by (auto simp: parse_def Let_def split: option.splits if_splits)

lemma decode_buffer [simp]:
  "cur_buffer (current (decode e s)) = cur_buffer (current s)"
  "cur_length (current (decode e s)) = cur_length (current s)"
  by (auto simp: decode_def Let_def do_effect_def split: option.splits)

lemma parseInflate_current [simp]: "current (parseInflate s) = current s"
  by (simp add: parseInflate_def do_effect_def Let_def split: list.splits)

lemma dispatch_buffer:
  "cur_buffer (current (dispatch e s)) = None \<or>
   cur_buffer (current (dispatch e s)) = cur_buffer (current s)"
  by (simp add: dispatch_def Let_def on_data_frame_def on_close_frame_def on_ping_frame_def
      on_pong_frame_def append_body_def do_effect_def)

lemma dispatch_length [simp]:
  "cur_length (current (dispatch e s)) = cur_length (current s)"
  by (simp add: dispatch_def Let_def on_data_frame_def on_close_frame_def on_ping_frame_def
      on_pong_frame_def append_body_def do_effect_def)

lemma unconsumed_accumulate:
  "length (unconsumed (accumulate d s)) = length (unconsumed s) + (case d of None \<Rightarrow> 0 | Some x \<Rightarrow> length x)"
  by (simp add: unconsumed_def accumulate_def split: option.splits)

lemma ondata_decreases:
  assumes p: "parse e s0 = (True, y)"
    and b: "cur_buffer (current (dispatch e y)) = Some x2"
    and r: "buf_slice x2 (cur_length (current y)) (length x2) \<noteq> []"
  shows "length (buf_slice x2 (cur_length (current y)) (length x2)) < length (unconsumed s0)"
proof -
  from parse_True [OF p] have same: "cur_buffer (current y) = cur_buffer (current s0)"
    and pos: "3 \<le> cur_length (current y)" by simp_all
  from dispatch_buffer [of e y] b same have "cur_buffer (current s0) = Some x2" by simp
  then have u: "unconsumed s0 = x2" by (simp add: unconsumed_def)
  from r have "cur_length (current y) < length x2" by (simp add: buf_slice_def)
  with pos u show ?thesis by (simp add: buf_slice_def)
qed

function ondata :: "env \<Rightarrow> buffer option \<Rightarrow> ws \<Rightarrow> ws" where
  "ondata e dat s =
     (if isClosed s then s
      else
        (let s0 = accumulate dat s in
         case parse e s0 of
           (False, s1) \<Rightarrow> s1
         | (True, s1) \<Rightarrow>
             (let s2 = dispatch e s1 in
              case cur_buffer (current s2) of
                None \<Rightarrow> s2
              | Some buf \<Rightarrow>
                  (let rest = buf_slice buf (cur_length (current s2)) (length buf);
                       s3 = s2\<lparr>current := (current s2)\<lparr>cur_buffer := Some rest\<rparr>\<rparr>
                   in if rest \<noteq> [] then ondata e None s3 else s3))))"
  by pat_completeness auto
termination
proof (relation "measure (\<lambda>(e, dat, s). length (unconsumed s) + (case dat of None \<Rightarrow> 0 | Some x \<Rightarrow> length x))", goal_cases)
  case 1
  show ?case by simp
next
  case (2 e dat s x xa y xb x2 xc xd)
  from 2 have p: "parse e (accumulate dat s) = (True, y)" by simp
  from 2 have b: "cur_buffer (current (dispatch e y)) = Some x2" by simp
  from 2 have r: "buf_slice x2 (cur_length (current y)) (length x2) \<noteq> []" by simp
  from 2 have xd: "unconsumed xd = buf_slice x2 (cur_length (current y)) (length x2)"
    by (simp add: unconsumed_def)
  from ondata_decreases [OF p b r] unconsumed_accumulate [of dat s] xd
  show ?case by simp
qed

lemmas [simp del] = ondata.simps


subsection \<open>Sending\<close>

text \<open>\<^verbatim>\<open>buffer.slice(from, to)\<close> with JavaScript's rule for negative offsets.\<close>

definition js_slice :: "buffer \<Rightarrow> int \<Rightarrow> int \<Rightarrow> buffer" where
  "js_slice buf from to =
     (let n = int (length buf);
          a = (if from < 0 then max 0 (n + from) else min from n);
          b = (if to < 0 then max 0 (n + to) else min to n)
      in take (nat (b - a)) (drop (nat a) buf))"

text \<open>
  \<^verbatim>\<open>sendDeflate()\<close> up to the call of \<^verbatim>\<open>flush\<close>, and the callback it passes to \<^verbatim>\<open>flush\<close>.
  Between the two, zlib delivers the compressed chunks to \<open>websocket_deflate\<close>.
\<close>

definition sendDeflate :: "ws \<Rightarrow> ws" where
  "sendDeflate s =
     (if deflatelock s then s
      else
        (case deflatepending s of
           [] \<Rightarrow> s
         | buf # rest \<Rightarrow>
             (let s1 = s\<lparr>deflatepending := rest, deflatechunks := Some [],
                         deflatechunkslength := 0, deflatelock := True\<rparr>
              in do_effect DeflateFlush (do_effect (DeflateWrite buf) s1))))"

definition websocket_deflate :: "buffer \<Rightarrow> ws \<Rightarrow> error + ws" where
  "websocket_deflate dat s =
     (case deflatechunks s of
        None \<Rightarrow> Inl TypeError
      | Some chunks \<Rightarrow>
          Inr (s\<lparr>deflatechunks := Some (chunks @ [dat]),
                 deflatechunkslength := deflatechunkslength s + length dat\<rparr>))"

definition sendDeflate_flushed :: "ws \<Rightarrow> ws" where
  "sendDeflate_flushed s =
     (case deflatechunks s of
        None \<Rightarrow> s
      | Some chunks \<Rightarrow>
          (let dat0 = buffer_concat chunks (deflatechunkslength s);
               dat = js_slice dat0 0 (int (length dat0) - 4);
               s1 = s\<lparr>deflatelock := False, deflatechunks := None\<rparr>;
               s2 = do_effect
                      (SocketWrite (getWebSocketFrame 0 (JBuf dat)
                         (if type_field s1 = JNum 1 then 0x02 else 0x01) True
                         (opt_masking (options s1)))) s1
           in sendDeflate s2))"

text \<open>
  \<^verbatim>\<open>send(message, raw, replacer)\<close>: the value returned and the updated object, or the
  exception of \<^verbatim>\<open>Buffer.from\<close>, which is thrown before the object is touched.
\<close>

definition send_text_data :: "env \<Rightarrow> ws \<Rightarrow> jsval \<Rightarrow> jsval \<Rightarrow> jsval \<Rightarrow> jsval" where
  "send_text_data e s message raw replacer =
     (let r = (if loose_eq_true replacer then json2replacer e else replacer);
          d0 = (if opt_type (options s) = ''json''
                then (if truthy raw then message else JSON_stringify e message r)
                else if typeof_object message then JSON_stringify e message r
                else JStr (to_string e message));
          d1 = (if opt_encrypt (options s) \<noteq> []
                then encrypt_data e d0 (opt_encrypt (options s)) else d0)
      in if opt_encodedecode (options s) \<and> truthy d1
         then JStr (encodeURIComponent e d1) else d1)"

definition send :: "env \<Rightarrow> jsval \<Rightarrow> jsval \<Rightarrow> jsval \<Rightarrow> ws \<Rightarrow> error + bool \<times> ws" where
  "send e message raw replacer s =
     (if isClosed s \<or> closed s then Inr (False, s)
      else if istext s then
        (case Buffer_from e (send_text_data e s message raw replacer) of
           None \<Rightarrow> Inl TypeError
         | Some b \<Rightarrow>
             Inr (True, do_effect (Stats ''websocket++'')
               (if deflate s
                then sendDeflate (s\<lparr>deflatepending := deflatepending s @ [b]\<rparr>)
                else do_effect (SocketWrite (getWebSocketFrame 0 (JBuf b) 0x01 False
                                               (opt_masking (options s)))) s)))
      else if truthy message then
        (case (case message of JBuf b \<Rightarrow> Some b | _ \<Rightarrow> Buffer_from e message) of
           None \<Rightarrow> Inl TypeError
         | Some b \<Rightarrow>
             Inr (True, do_effect (Stats ''websocket++'')
               (if deflate s
                then sendDeflate (s\<lparr>deflatepending := deflatepending s @ [b]\<rparr>)
                else do_effect (SocketWrite (getWebSocketFrame 0 (JBuf b) 0x02 False
                                               (opt_masking (options s)))) s)))
      else Inr (True, do_effect (Stats ''websocket++'') s))"

text \<open>
  \<^verbatim>\<open>ping()\<close>. The method declares no local \<^verbatim>\<open>self\<close>, so the argument
  \<^verbatim>\<open>self.options.masking\<close> of the frame builder is evaluated in the global scope, before
  the frame is built and written.
\<close>

definition ping :: "env \<Rightarrow> ws \<Rightarrow> error + ws" where
  "ping e s =
     (if \<not> isClosed s then
        (case global_self e of
           Inl err \<Rightarrow> Inl err
         | Inr masking \<Rightarrow>
             Inr ((do_effect (SocketWrite (getWebSocketFrame 0 (JStr ''PING'') 0x09 False
                                             masking)) s)
                    \<lparr>dollar_ping := Some False\<rparr>))
      else Inr s)"

subsection \<open>Runs of the client\<close>

text \<open>
  What can happen to a client: the events of its socket, of its zlib contexts and of
  its timer, and the calls of its interface. An exception leaves the object as it was,
  since each method that throws does so before its first assignment.
\<close>

datatype event =
    Upgrade bool bool
  | SocketData buffer
  | SocketError jsval
  | SocketClosed
  | InflateData buffer
  | InflateFlushed bool
  | DeflateData buffer
  | DeflateFlushed
  | TimerFired
  | CallSend jsval jsval jsval
  | CallPing
  | CallClose jsval "nat option"
  | CallOn string "nat \<times> bool"

fun step :: "env \<Rightarrow> event \<Rightarrow> ws \<Rightarrow> error + ws" where
  "step e (Upgrade accept_ok deflate_offered) s = Inr (upgrade accept_ok deflate_offered s)"
| "step e (SocketData chunk) s = Inr (ondata e (Some chunk) s)"
| "step e (SocketError err) s = Inr (onerror err s)"
| "step e SocketClosed s = Inr (websocket_close s)"
| "step e (InflateData chunk) s = websocket_inflate chunk s"
| "step e (InflateFlushed continue) s = Inr (parseInflate_flushed e continue s)"
| "step e (DeflateData chunk) s = websocket_deflate chunk s"
| "step e DeflateFlushed s = Inr (sendDeflate_flushed s)"
| "step e TimerFired s = Inr (reconnect_timer s)"
| "step e (CallSend message raw replacer) s = map_sum id snd (send e message raw replacer s)"
| "step e CallPing s = ping e s"
| "step e (CallClose message code) s = Inr (close e message code s)"
| "step e (CallOn name fn) s = Inr (on_event name fn s)"

fun run :: "env \<Rightarrow> event list \<Rightarrow> ws \<Rightarrow> ws" where
  "run e [] s = s"
| "run e (ev # evs) s = run e evs (case step e ev s of Inl err \<Rightarrow> s | Inr s' \<Rightarrow> s')"

subsection \<open>Observations\<close>

text \<open>What the theorems below read off the log of effects.\<close>

fun is_close_emit :: "effect \<Rightarrow> bool" where
  "is_close_emit (Emit name args handlers) = (name = ''close'')"
| "is_close_emit x = False"

definition close_emits :: "ws \<Rightarrow> nat" where
  "close_emits s = length (filter is_close_emit (effects s))"

fun is_timer :: "effect \<Rightarrow> bool" where
  "is_timer (SetTimeout delay) = True"
| "is_timer x = False"

definition timers :: "ws \<Rightarrow> effect list" where
  "timers s = filter is_timer (effects s)"

fun message_of :: "effect \<Rightarrow> jsval list option" where
  "message_of (Emit name args handlers) = (if name = ''message'' then Some args else None)"
| "message_of x = None"

definition messages :: "ws \<Rightarrow> jsval list list" where
  "messages s = List.map_filter message_of (effects s)"



subsection \<open>Concrete clients\<close>

text \<open>
  The collaborators for the concrete runs: text is ASCII without percent escapes, there
  is no encryption, and no global named \<^verbatim>\<open>self\<close> exists, as on Node.js.
\<close>

definition node_env :: env where
  "node_env =
     \<lparr> toString_utf8 = map (\<lambda>b. char_of (unat b)),
       Buffer_from = (\<lambda>v. case v of JStr s \<Rightarrow> Some (map of_char s) | JBuf b \<Rightarrow> Some b
                          | _ \<Rightarrow> None),
       decodeURIComponent = Some,
       encodeURIComponent = (\<lambda>v. case v of JStr s \<Rightarrow> s | _ \<Rightarrow> []),
       encrypt_data = (\<lambda>v key. v),
       decrypt_data = (\<lambda>v key. v),
       isJSON = (\<lambda>v. True),
       parseJSON = JStr,
       JSON_stringify = (\<lambda>v r. v),
       json2replacer = JUndefined,
       to_string = (\<lambda>v. case v of JStr s \<Rightarrow> s | _ \<Rightarrow> []),
       global_self = Inl ReferenceError \<rparr>"

text \<open>
  A client of the given payload type and maximum length with one subscriber for
  \<^verbatim>\<open>message\<close> and one for \<^verbatim>\<open>close\<close>, connected, after a successful upgrade in which the
  server offered permessage-deflate or did not.
\<close>

definition new_client :: "string \<Rightarrow> nat \<Rightarrow> ws" where
  "new_client ty maxlen =
     on_event ''close'' (2, False) (on_event ''message'' (1, False)
       (WebSocketClient\<lparr>options := (options WebSocketClient)
          \<lparr>opt_type := ty, opt_length := maxlen\<rparr>\<rparr>))"

definition open_client :: "string \<Rightarrow> nat \<Rightarrow> bool \<Rightarrow> ws" where
  "open_client ty maxlen deflate_offered =
     upgrade True deflate_offered (connect (new_client ty maxlen))"

section \<open>Evaluation\<close>

lemmas client_defs = open_client_def new_client_def WebSocketClient_def on_event_def
  connect_def upgrade_def do_effect_def emit_if_def emit_def Let_def

lemmas receive_defs = ondata.simps accumulate_def parse_def getMessageLength_def buf_slice_def
  dispatch_def on_data_frame_def on_close_frame_def on_ping_frame_def on_pong_frame_def
  append_body_def decode_def close_def getWebSocketFrame_def parseInflate_def

section \<open>Masked frames without compression\<close>

text \<open>
  Claim C1. A received data frame with the MASK bit set should reach the message body,
  and the \<^verbatim>\<open>message\<close> event, un-masked when compression is not active. The code does not
  do so: \<^verbatim>\<open>$parse\<close> copies the payload as it is into \<^verbatim>\<open>current.data\<close>, \<^verbatim>\<open>$ondata\<close> appends
  \<^verbatim>\<open>current.data\<close> to the body, and \<^verbatim>\<open>$readbody\<close>, which would un-mask it, is never called.
  The binary frame \<open>82 81 01 02 03 04 49\<close> carries the byte \<open>48\<close> masked with the key
  \<open>01 02 03 04\<close>; the subscriber receives \<open>49\<close>. The same holds for the body of a
  message in progress (the frame \<open>02 81 01 02 03 04 49\<close> is not final), where
  \<^verbatim>\<open>$readbody\<close> on the parsed frame gives \<open>48\<close>.
\<close>

theorem C1_masked_payload_delivered_masked:
  "effects (ondata e (Some [0x82, 0x81, 0x01, 0x02, 0x03, 0x04, 0x49])
      (open_client ''binary'' 0 False))
     = effects (open_client ''binary'' 0 False)
       @ [Stats ''message++'', Emit ''message'' [JBuf [0x49]] [1]]
   \<and> cur_body (current (ondata e (Some [0x02, 0x81, 0x01, 0x02, 0x03, 0x04, 0x49])
        (open_client ''binary'' 0 False))) = Some [0x49]
   \<and> readbody (snd (parse e (accumulate (Some [0x02, 0x81, 0x01, 0x02, 0x03, 0x04, 0x49])
        (open_client ''binary'' 0 False)))) = [0x48]"
  by (simp add: client_defs receive_defs readbody_def unmask_def)

section \<open>Feeding a stream in two halves\<close>

text \<open>
  Claim C2. Feeding a serialized sequence of frames in two halves should deliver the
  messages that feeding it whole delivers. The code breaks this at a ping or pong
  frame: its case in \<^verbatim>\<open>$ondata\<close> sets \<^verbatim>\<open>current.buffer = null\<close>, which drops every byte that
  arrived after the frame in the same chunk, where the cases of the data frames slice
  the accumulator past the frame. The stream is a ping with the payload \<open>PING\<close>
  followed by a binary frame with the payload \<open>48\<close>: fed whole, no message is
  delivered; split after the ping, the message is.
\<close>

theorem C2_split_after_ping_differs:
  "messages (ondata e (Some ([0x89, 0x04, 0x50, 0x49, 0x4E, 0x47] @ [0x82, 0x01, 0x48]))
      (open_client ''binary'' 0 False)) = []
   \<and> messages (ondata e (Some [0x82, 0x01, 0x48])
        (ondata e (Some [0x89, 0x04, 0x50, 0x49, 0x4E, 0x47])
           (open_client ''binary'' 0 False)))
      = [[JBuf [0x48]]]"
  by (simp add: client_defs receive_defs messages_def List.map_filter_simps)

section \<open>Pings\<close>

text \<open>
  Claim C7. Every received ping, the empty ping \<open>89 00\<close> included, should be answered
  with a pong carrying \<open>PONG\<close>, and set the liveness flag. The code answers a ping with
  a payload (first conjunct), but never the empty one: \<^verbatim>\<open>$parse\<close> returns while the
  accumulator holds at most two bytes, and returns again on a payload length \<open>\<le> 0\<close>,
  whatever bytes follow. Nothing is written, the flag stays unset, and the frame stays
  at the head of the accumulator.
\<close>

theorem C7_empty_ping_unanswered:
  "effects (ondata e (Some [0x89, 0x04, 0x50, 0x49, 0x4E, 0x47]) (open_client ''json'' 0 False))
     = effects (open_client ''json'' 0 False)
       @ [SocketWrite \<lparr> f_fin = True, f_rsv1 = False, f_opcode = 0x0A, f_masked = False,
                        f_payload = [0x50, 0x4F, 0x4E, 0x47] \<rparr>]
   \<and> effects (ondata e (Some (0x89 # 0x00 # rest)) (open_client ''json'' 0 False))
     = effects (open_client ''json'' 0 False)
   \<and> dollar_ping (ondata e (Some (0x89 # 0x00 # rest)) (open_client ''json'' 0 False)) = None
   \<and> unconsumed (ondata e (Some (0x89 # 0x00 # rest)) (open_client ''json'' 0 False))
     = 0x89 # 0x00 # rest"
  by (simp add: client_defs receive_defs unconsumed_def)

text \<open>
  Claim C8. \<^verbatim>\<open>ping()\<close> on an open connection should write a ping frame with the payload
  \<open>PING\<close> and clear the liveness flag. The method reads \<^verbatim>\<open>self.options.masking\<close> without
  declaring \<^verbatim>\<open>self\<close> (the other methods declare \<^verbatim>\<open>var self = this\<close>); where no global of
  that name exists the call throws before anything is written or cleared.
\<close>

theorem C8_ping_throws:
  "ping node_env (open_client ''json'' 0 False) = Inl ReferenceError"
  by (simp add: client_defs ping_def node_env_def)

section \<open>The opcode of a deflated frame\<close>

text \<open>
  Claim C9. With the payload type binary and deflate negotiated, a message should be
  written with the binary opcode 2. \<^verbatim>\<open>sendDeflate\<close> chooses the opcode by
  \<^verbatim>\<open>self.type === 1\<close>, a field that nothing in the client sets, so every deflated frame
  has the text opcode 1, whatever the payload and whatever zlib returns. Without
  deflate the same client writes opcode 2 (second conjunct).
\<close>

theorem C9_deflated_binary_sent_as_text:
  "effects (run e [CallSend (JBuf payload) raw replacer, DeflateData out, DeflateFlushed]
      (open_client ''binary'' 0 True))
     = effects (open_client ''binary'' 0 True)
       @ [DeflateWrite payload, DeflateFlush, Stats ''websocket++'',
          SocketWrite \<lparr> f_fin = True, f_rsv1 = True, f_opcode = 0x01, f_masked = False,
                        f_payload = js_slice out 0 (int (length out) - 4) \<rparr>]
   \<and> effects (run e [CallSend (JBuf payload) raw replacer] (open_client ''binary'' 0 False))
     = effects (open_client ''binary'' 0 False)
       @ [SocketWrite \<lparr> f_fin = True, f_rsv1 = False, f_opcode = 0x02, f_masked = False,
                        f_payload = payload \<rparr>, Stats ''websocket++'']"
  by (simp add: client_defs send_def sendDeflate_def websocket_deflate_def
      sendDeflate_flushed_def buffer_concat_def getWebSocketFrame_def)

section \<open>The maximum frame length\<close>

lemma accumulate_Some_buffer:
  "cur_buffer (current (accumulate (Some chunk) s)) = Some (unconsumed s @ chunk)"
  by (simp add: accumulate_def unconsumed_def split: option.splits)

lemma accumulate_other [simp]:
  "options (accumulate d s) = options s"
  "effects (accumulate d s) = effects s"
  "isClosed (accumulate d s) = isClosed s"
  "inflate (accumulate d s) = inflate s"
  by (simp_all add: accumulate_def split: option.splits)



















lemma accumulate_inflatepending [simp]:
  "inflatepending (accumulate d s) = inflatepending s"
  by (simp add: accumulate_def split: option.splits)







section \<open>The lifecycle over a run\<close>

text \<open>
  Most of what a client does leaves its lifecycle alone: \<open>quiet s s'\<close> says that from
  \<open>s\<close> to \<open>s'\<close> the guard \<^verbatim>\<open>_isClosed\<close> is unchanged, no close event is emitted, no
  timer is set, and the reconnect delay is unchanged or has been set to zero.
\<close>

definition quiet :: "ws \<Rightarrow> ws \<Rightarrow> bool" where
  "quiet s s' \<longleftrightarrow>
     u_isClosed s' = u_isClosed s \<and> close_emits s' = close_emits s \<and> timers s' = timers s
     \<and> (opt_reconnect (options s') = 0 \<or> opt_reconnect (options s') = opt_reconnect (options s))"

lemma quiet_refl [simp]: "quiet s s"
  by (simp add: quiet_def)

lemma quiet_fields [simp]:
  "quiet s (t\<lparr>current := c\<rparr>) = quiet s t"
  "quiet s (t\<lparr>events := ev\<rparr>) = quiet s t"
  "quiet s (t\<lparr>reconnect := n\<rparr>) = quiet s t"
  "quiet s (t\<lparr>closed := b\<rparr>) = quiet s t"
  "quiet s (t\<lparr>typebuffer := b\<rparr>) = quiet s t"
  "quiet s (t\<lparr>istext := b\<rparr>) = quiet s t"
  "quiet s (t\<lparr>isClosed := b\<rparr>) = quiet s t"
  "quiet s (t\<lparr>dollar_ping := g\<rparr>) = quiet s t"
  "quiet s (t\<lparr>closemessage := m\<rparr>) = quiet s t"
  "quiet s (t\<lparr>closecode := k\<rparr>) = quiet s t"
  "quiet s (t\<lparr>inflate := b\<rparr>) = quiet s t"
  "quiet s (t\<lparr>inflatepending := p\<rparr>) = quiet s t"
  "quiet s (t\<lparr>inflatelock := b\<rparr>) = quiet s t"
  "quiet s (t\<lparr>inflatechunks := ch\<rparr>) = quiet s t"
  "quiet s (t\<lparr>inflatechunkslength := n\<rparr>) = quiet s t"
  "quiet s (t\<lparr>deflate := b\<rparr>) = quiet s t"
  "quiet s (t\<lparr>deflatepending := dp\<rparr>) = quiet s t"
  "quiet s (t\<lparr>deflatelock := b\<rparr>) = quiet s t"
  "quiet s (t\<lparr>deflatechunks := ch\<rparr>) = quiet s t"
  "quiet s (t\<lparr>deflatechunkslength := n\<rparr>) = quiet s t"
  by (simp_all add: quiet_def close_emits_def timers_def)

lemma quiet_do_effect [simp]:
  "\<not> is_close_emit x \<Longrightarrow> \<not> is_timer x \<Longrightarrow> quiet s (do_effect x t) = quiet s t"
  by (simp add: quiet_def do_effect_def close_emits_def timers_def)

lemma quiet_emit [simp]: "name \<noteq> ''close'' \<Longrightarrow> quiet s (emit name args t) = quiet s t"
  by (simp add: quiet_def emit_def do_effect_def close_emits_def timers_def Let_def)

lemma quiet_emit_if [simp]: "name \<noteq> ''close'' \<Longrightarrow> quiet s (emit_if name args t) = quiet s t"
  by (simp add: emit_if_def)

lemma quiet_close [simp]: "quiet s t \<Longrightarrow> quiet s (close e m c t)"
  by (simp add: quiet_def close_def do_effect_def close_emits_def timers_def Let_def)

lemma quiet_accumulate [simp]: "quiet s (accumulate d t) = quiet s t"
  by (simp add: accumulate_def split: option.splits)

lemma quiet_append_body [simp]: "quiet s (append_body d t) = quiet s t"
  by (simp add: append_body_def)

lemma quiet_decode [simp]: "quiet s (decode e t) = quiet s t"
  by (simp add: decode_def Let_def split: option.splits)

lemma quiet_parseInflate [simp]: "quiet s (parseInflate t) = quiet s t"
  by (simp add: quiet_def parseInflate_def do_effect_def close_emits_def timers_def Let_def
      split: list.splits)

lemma quiet_parse [simp]: "quiet s t \<Longrightarrow> quiet s (snd (parse e t))"
  by (simp add: parse_def Let_def split: option.splits)

lemma quiet_dispatch [simp]: "quiet s t \<Longrightarrow> quiet s (dispatch e t)"
  by (simp add: dispatch_def on_data_frame_def on_close_frame_def on_ping_frame_def
      on_pong_frame_def Let_def)

lemma quiet_ondata: "quiet s t \<Longrightarrow> quiet s (ondata e dat t)"
proof (induction e dat t rule: ondata.induct)
  case (1 e dat t)
  note q = \<open>quiet s t\<close>
  show ?case
  proof (cases "isClosed t")
    case True
    with q show ?thesis by (subst ondata.simps) simp
  next
    case False
    let ?s0 = "accumulate dat t"
    obtain ok s1 where p: "parse e ?s0 = (ok, s1)" by (cases "parse e ?s0")
    have q1: "quiet s s1"
      using quiet_parse [of s ?s0 e] q p by simp
    show ?thesis
    proof (cases ok)
      case False
      with \<open>\<not> isClosed t\<close> p q1 show ?thesis by (subst ondata.simps) simp
    next
      case True
      let ?s2 = "dispatch e s1"
      have q2: "quiet s ?s2" using q1 by simp
      show ?thesis
      proof (cases "cur_buffer (current ?s2)")
        case None
        with \<open>\<not> isClosed t\<close> p True q2 show ?thesis by (subst ondata.simps) simp
      next
        case (Some buf)
        let ?rest = "buf_slice buf (cur_length (current ?s2)) (length buf)"
        let ?s3 = "?s2\<lparr>current := (current ?s2)\<lparr>cur_buffer := Some ?rest\<rparr>\<rparr>"
        have q3: "quiet s ?s3" using q2 by simp
        show ?thesis
        proof (cases "?rest = []")
          case True
          with \<open>\<not> isClosed t\<close> p \<open>ok\<close> Some q3 show ?thesis
            by (subst ondata.simps) (simp add: Let_def)
        next
          case False
          have "quiet s (ondata e None ?s3)"
            using "1.IH" [OF \<open>\<not> isClosed t\<close> refl p [symmetric] eqTrueI [OF \<open>ok\<close>] refl Some
                refl refl False q3] .
          with \<open>\<not> isClosed t\<close> p \<open>ok\<close> Some False show ?thesis
            by (subst ondata.simps) (simp add: Let_def)
        qed
      qed
    qed
  qed
qed

lemma quiet_parseInflate_flushed [simp]:
  "quiet s t \<Longrightarrow> quiet s (parseInflate_flushed e c t)"
  by (simp add: parseInflate_flushed_def Let_def split: option.splits)

lemma quiet_sendDeflate [simp]: "quiet s (sendDeflate t) = quiet s t"
  by (simp add: sendDeflate_def Let_def split: list.splits)

lemma quiet_sendDeflate_flushed [simp]: "quiet s (sendDeflate_flushed t) = quiet s t"
  by (simp add: sendDeflate_flushed_def Let_def split: option.splits)

lemma quiet_upgrade [simp]: "quiet s (upgrade a d t) = quiet s t"
  by (simp add: upgrade_def Let_def)

lemma quiet_connect [simp]: "quiet s (connect t) = quiet s t"
  by (simp add: connect_def Let_def)

lemma quiet_on_event [simp]: "quiet s (on_event name fn t) = quiet s t"
  by (simp add: on_event_def)

lemma quiet_send: "send e m r p s = Inr (b, s') \<Longrightarrow> quiet s s'"
  by (auto simp: send_def split: if_splits option.splits)

lemma quiet_websocket_inflate: "websocket_inflate d s = Inr s' \<Longrightarrow> quiet s s'"
  by (auto simp: websocket_inflate_def split: option.splits)

lemma quiet_websocket_deflate: "websocket_deflate d s = Inr s' \<Longrightarrow> quiet s s'"
  by (auto simp: websocket_deflate_def split: option.splits)

lemma quiet_ping: "ping e s = Inr s' \<Longrightarrow> quiet s s'"
  by (auto simp: ping_def split: if_splits sum.splits)

text \<open>
  The close event: \<open>close_budget\<close> is the number of close events emitted so far plus
  the one that the guard \<^verbatim>\<open>_isClosed\<close> still allows.
\<close>

definition close_budget :: "ws \<Rightarrow> nat" where
  "close_budget s = close_emits s + (if u_isClosed s then 0 else 1)"

lemma quiet_close_budget: "quiet s s' \<Longrightarrow> close_budget s' = close_budget s"
  by (simp add: quiet_def close_budget_def)

lemma onclose_guarded: "u_isClosed s \<Longrightarrow> onclose s = s"
  by (simp add: onclose_def)

lemma onclose_sets_guard: "u_isClosed (onclose s)"
  by (simp add: onclose_def do_effect_def emit_if_def emit_def Let_def)

lemma onclose_close_emits:
  "close_emits (onclose s) =
     close_emits s + (if \<not> u_isClosed s \<and> events s ''close'' \<noteq> [] then 1 else 0)"
  by (simp add: onclose_def do_effect_def emit_if_def emit_def Let_def close_emits_def)

lemma onclose_timers [simp]: "timers (onclose s) = timers s"
  by (simp add: onclose_def do_effect_def emit_if_def emit_def Let_def timers_def)

lemma onclose_options [simp]: "options (onclose s) = options s"
  by (simp add: onclose_def do_effect_def emit_if_def emit_def Let_def)

lemma onclose_budget: "close_budget (onclose s) \<le> close_budget s"
  by (simp add: close_budget_def onclose_close_emits onclose_sets_guard)

lemma budget_fields [simp]:
  "close_budget (s\<lparr>isClosed := b\<rparr>) = close_budget s"
  "close_budget (s\<lparr>closed := b\<rparr>) = close_budget s"
  by (simp_all add: close_budget_def close_emits_def)

lemma budget_do_effect [simp]:
  "\<not> is_close_emit x \<Longrightarrow> close_budget (do_effect x s) = close_budget s"
  by (simp add: close_budget_def close_emits_def do_effect_def)

lemma onerror_budget: "close_budget (onerror err s) \<le> close_budget s"
proof -
  have "quiet s (emit_if ''error'' [err] s)" by simp
  then have "close_budget (emit_if ''error'' [err] s) = close_budget s"
    by (rule quiet_close_budget)
  moreover have "close_budget (onclose ((emit_if ''error'' [err] s)\<lparr>isClosed := True\<rparr>))
      \<le> close_budget (emit_if ''error'' [err] s)"
    using onclose_budget [of "(emit_if ''error'' [err] s)\<lparr>isClosed := True\<rparr>"] by simp
  ultimately show ?thesis by (simp add: onerror_def Let_def)
qed

lemma websocket_close_budget: "close_budget (websocket_close s) \<le> close_budget s"
  using onclose_budget [of "s\<lparr>closed := True\<rparr>"]
  by (simp add: websocket_close_def Let_def)

lemma step_quiet:
  assumes "ev \<noteq> TimerFired" and "ev \<noteq> SocketClosed" and "\<forall>err. ev \<noteq> SocketError err"
    and "step e ev s = Inr s'"
  shows "quiet s s'"
proof (cases ev)
  case (Upgrade a d)
  with assms(4) show ?thesis by auto
next
  case (SocketData chunk)
  with assms(4) quiet_ondata [of s s e "Some chunk"] show ?thesis by auto
next
  case (SocketError err)
  with assms(3) show ?thesis by simp
next
  case SocketClosed
  with assms(2) show ?thesis by simp
next
  case (InflateData chunk)
  with assms(4) show ?thesis by (simp add: quiet_websocket_inflate)
next
  case (InflateFlushed c)
  with assms(4) quiet_parseInflate_flushed [of s s e c] show ?thesis by auto
next
  case (DeflateData chunk)
  with assms(4) show ?thesis by (simp add: quiet_websocket_deflate)
next
  case DeflateFlushed
  with assms(4) show ?thesis by auto
next
  case TimerFired
  with assms(1) show ?thesis by simp
next
  case (CallSend m r p)
  show ?thesis
  proof (cases "send e m r p s")
    case (Inl err)
    with CallSend assms(4) show ?thesis by simp
  next
    case (Inr x)
    obtain b t where x: "x = (b, t)" by (cases x)
    with Inr CallSend assms(4) have "t = s'" by simp
    with Inr x have "send e m r p s = Inr (b, s')" by simp
    then show ?thesis by (rule quiet_send)
  qed
next
  case CallPing
  with assms(4) show ?thesis by (simp add: quiet_ping)
next
  case (CallClose m c)
  with assms(4) quiet_close [of s s e m c] show ?thesis by auto
next
  case (CallOn name fn)
  with assms(4) show ?thesis by auto
qed

lemma step_budget:
  assumes "ev \<noteq> TimerFired" and "step e ev s = Inr s'"
  shows "close_budget s' \<le> close_budget s"
proof (cases "ev = SocketClosed \<or> (\<exists>err. ev = SocketError err)")
  case True
  then show ?thesis
  proof
    assume "ev = SocketClosed"
    with assms(2) websocket_close_budget [of s] show ?thesis by auto
  next
    assume "\<exists>err. ev = SocketError err"
    then obtain err where "ev = SocketError err" ..
    with assms(2) onerror_budget [of err s] show ?thesis by auto
  qed
next
  case False
  with assms have "quiet s s'" by (intro step_quiet [of ev e s s']) auto
  then show ?thesis by (simp add: quiet_close_budget)
qed

lemma run_budget: "TimerFired \<notin> set evs \<Longrightarrow> close_budget (run e evs s) \<le> close_budget s"
proof (induction evs arbitrary: s)
  case Nil
  show ?case by simp
next
  case (Cons ev evs)
  then have ne: "ev \<noteq> TimerFired" and rest: "TimerFired \<notin> set evs" by auto
  show ?case
  proof (cases "step e ev s")
    case (Inl err)
    with Cons.IH [OF rest, of s] show ?thesis by simp
  next
    case (Inr s')
    from step_budget [OF ne Inr] Cons.IH [OF rest, of s'] Inr show ?thesis by simp
  qed
qed

lemma timers_do_effect [simp]:
  "timers (do_effect x s) = timers s @ (if is_timer x then [x] else [])"
  by (simp add: timers_def do_effect_def)

lemma timers_closed [simp]: "timers (s\<lparr>closed := b\<rparr>) = timers s"
  by (simp add: timers_def)

lemma options_do_effect [simp]: "options (do_effect x s) = options s"
  by (simp add: do_effect_def)

lemma websocket_close_timers:
  "timers (websocket_close s) =
     timers s @ (if opt_reconnect (options s) \<noteq> 0
                 then [SetTimeout (opt_reconnect (options s))] else [])"
  by (simp add: websocket_close_def Let_def)

lemma websocket_close_options [simp]: "options (websocket_close s) = options s"
  by (simp add: websocket_close_def Let_def do_effect_def)

lemma onerror_idle [simp]:
  "options (onerror err s) = options s" "timers (onerror err s) = timers s"
  by (simp_all add: onerror_def Let_def emit_if_def emit_def do_effect_def)
    (simp_all add: timers_def)

lemma reconnect_timer_idle [simp]:
  "options (reconnect_timer s) = options s" "timers (reconnect_timer s) = timers s"
  by (simp_all add: reconnect_timer_def connect_def Let_def do_effect_def timers_def)

lemma reconnect_timer_resets_guard: "\<not> u_isClosed (reconnect_timer s)"
  by (simp add: reconnect_timer_def connect_def Let_def do_effect_def)

lemma step_no_reconnect:
  assumes "opt_reconnect (options s) = 0" and "step e ev s = Inr s'"
  shows "opt_reconnect (options s') = 0 \<and> timers s' = timers s"
proof (cases "ev = TimerFired \<or> ev = SocketClosed \<or> (\<exists>err. ev = SocketError err)")
  case True
  then consider "ev = TimerFired" | "ev = SocketClosed" | err where "ev = SocketError err"
    by blast
  then show ?thesis
  proof cases
    case 1
    with assms show ?thesis by auto
  next
    case 2
    with assms show ?thesis by (auto simp: websocket_close_timers)
  next
    case 3
    with assms show ?thesis by auto
  qed
next
  case False
  with assms(2) have "quiet s s'" by (intro step_quiet [of ev e s s']) auto
  with assms(1) show ?thesis by (auto simp: quiet_def)
qed

lemma run_no_reconnect:
  "opt_reconnect (options s) = 0 \<Longrightarrow>
     opt_reconnect (options (run e evs s)) = 0 \<and> timers (run e evs s) = timers s"
proof (induction evs arbitrary: s)
  case Nil
  then show ?case by simp
next
  case (Cons ev evs)
  show ?case
  proof (cases "step e ev s")
    case (Inl err)
    with Cons.IH [OF Cons.prems] show ?thesis by simp
  next
    case (Inr s')
    from step_no_reconnect [OF Cons.prems Inr]
    have z: "opt_reconnect (options s') = 0" and t: "timers s' = timers s" by simp_all
    from Cons.IH [OF z] t Inr show ?thesis by simp
  qed
qed

lemma close_sentinel [simp]: "options (close e (JBool True) code s) = options s"
  by (simp add: close_def Let_def do_effect_def)

lemma close_timers [simp]: "timers (close e m code s) = timers s"
  by (simp add: close_def Let_def do_effect_def timers_def)

lemma close_other: "m \<noteq> JBool True \<Longrightarrow> opt_reconnect (options (close e m code s)) = 0"
  by (simp add: close_def Let_def do_effect_def)

section \<open>Closing and reconnecting\<close>

text \<open>
  Claim C4. \<^verbatim>\<open>close(true, code)\<close> leaves the options, and with them the reconnect delay,
  as they are, so that the socket closure that follows sets the reconnect timer exactly
  when the delay is not zero. \<^verbatim>\<open>close(reason, code)\<close> with any other reason sets the
  delay to zero, and from then on, whatever happens to the client (socket events, zlib
  callbacks, timers set earlier that fire, calls of its interface), the delay stays
  zero and no timer is set.
\<close>

theorem C4_close_and_reconnect:
  "options (close e (JBool True) code s) = options s
   \<and> timers (websocket_close (close e (JBool True) code s))
       = timers s @ (if opt_reconnect (options s) \<noteq> 0
                     then [SetTimeout (opt_reconnect (options s))] else [])
   \<and> (reason \<noteq> JBool True \<longrightarrow>
         opt_reconnect (options (close e reason code' s)) = 0
       \<and> opt_reconnect (options (run e evs (close e reason code' s))) = 0
       \<and> timers (run e evs (close e reason code' s)) = timers s)"
proof -
  have "reason \<noteq> JBool True \<longrightarrow>
         opt_reconnect (options (close e reason code' s)) = 0
       \<and> opt_reconnect (options (run e evs (close e reason code' s))) = 0
       \<and> timers (run e evs (close e reason code' s)) = timers s"
  proof
    assume "reason \<noteq> JBool True"
    then have z: "opt_reconnect (options (close e reason code' s)) = 0"
      by (rule close_other)
    from z run_no_reconnect [OF z, of e evs]
    show "opt_reconnect (options (close e reason code' s)) = 0
       \<and> opt_reconnect (options (run e evs (close e reason code' s))) = 0
       \<and> timers (run e evs (close e reason code' s)) = timers s"
      by simp
  qed
  then show ?thesis by (simp add: websocket_close_timers)
qed

theorem C4_close_and_reconnect_witness:
  "timers (websocket_close (close node_env (JBool True) None (open_client ''json'' 0 False)))
     = [SetTimeout 3000]
   \<and> opt_reconnect (options (close node_env (JStr ''bye'') (Some 1000)
        (open_client ''json'' 0 False))) = 0
   \<and> timers (run node_env [SocketClosed, SocketError JUndefined, TimerFired, SocketClosed]
        (close node_env (JStr ''bye'') (Some 1000) (open_client ''json'' 0 False))) = []"
  using C4_close_and_reconnect [where e = node_env and code = None
      and s = "open_client ''json'' 0 False" and reason = "JStr ''bye''" and code' = "Some 1000"
      and evs = "[SocketClosed, SocketError JUndefined, TimerFired, SocketClosed]"]
  by (simp add: client_defs timers_def)

section \<open>The close event\<close>

text \<open>
  Claim C10. Over any run that the reconnect timer does not interrupt, the close event
  is emitted at most once, and not at all when the guard \<^verbatim>\<open>_isClosed\<close> is already set,
  although the run may hold any number of socket close, end and error events, each of
  which enters \<^verbatim>\<open>$onclose\<close>. With the guard set \<^verbatim>\<open>$onclose\<close> does nothing; \<^verbatim>\<open>$onclose\<close> sets the
  guard; the callback of the reconnect timer clears it for the next generation.
\<close>

theorem C10_close_event_once:
  "(TimerFired \<notin> set evs \<longrightarrow>
      close_emits (run e evs s) \<le> close_emits s + (if u_isClosed s then 0 else 1))
   \<and> (u_isClosed s \<longrightarrow> onclose s = s)
   \<and> u_isClosed (onclose s)
   \<and> \<not> u_isClosed (reconnect_timer s)"
proof -
  have "TimerFired \<notin> set evs \<longrightarrow>
      close_emits (run e evs s) \<le> close_emits s + (if u_isClosed s then 0 else 1)"
  proof
    assume "TimerFired \<notin> set evs"
    from run_budget [OF this, of e s]
    show "close_emits (run e evs s) \<le> close_emits s + (if u_isClosed s then 0 else 1)"
      by (simp add: close_budget_def split: if_splits)
  qed
  then show ?thesis
    by (simp add: onclose_guarded onclose_sets_guard reconnect_timer_resets_guard)
qed

theorem C10_close_event_once_witness:
  "close_emits (run node_env [SocketClosed, SocketError (JStr ''reset''), SocketClosed]
      (open_client ''json'' 0 False)) = 1
   \<and> onclose (websocket_close (open_client ''json'' 0 False))
       = websocket_close (open_client ''json'' 0 False)
   \<and> close_emits (run node_env [SocketClosed, TimerFired, Upgrade True False, SocketClosed]
      (open_client ''json'' 0 False)) = 2"
  using C10_close_event_once [where evs = "[SocketClosed, SocketError (JStr ''reset''), SocketClosed]"
      and e = node_env and s = "open_client ''json'' 0 False"]
    C10_close_event_once [where evs = "[]" and e = node_env
      and s = "websocket_close (open_client ''json'' 0 False)"]
  by (simp add: client_defs close_emits_def websocket_close_def onclose_def onerror_def
      reconnect_timer_def)

section \<open>Deflated frames\<close>

text \<open>
  The frames written to the socket, in order, and whether a payload ends in the four
  bytes \<open>00 00 FF FF\<close>.
\<close>

fun frame_of :: "effect \<Rightarrow> wsframe option" where
  "frame_of (SocketWrite fr) = Some fr"
| "frame_of x = None"

definition written :: "ws \<Rightarrow> wsframe list" where
  "written s = List.map_filter frame_of (effects s)"




lemma written_fields [simp]:
  "written (s\<lparr>deflatechunks := a\<rparr>) = written s"
  "written (s\<lparr>deflatechunkslength := n\<rparr>) = written s"
  "written (s\<lparr>deflatelock := b\<rparr>) = written s"
  "written (s\<lparr>deflatepending := p\<rparr>) = written s"
  by (simp_all add: written_def)

lemma written_do_effect [simp]:
  "written (do_effect x s) = written s @ (case frame_of x of None \<Rightarrow> [] | Some fr \<Rightarrow> [fr])"
  by (simp add: written_def do_effect_def List.map_filter_def split: option.splits)

lemma written_sendDeflate [simp]: "written (sendDeflate s) = written s"
  by (simp add: sendDeflate_def Let_def split: list.splits)








section \<open>Inflating fragments\<close>



lemma messages_append [simp]:
  "List.map_filter message_of (xs @ ys) = List.map_filter message_of xs @ List.map_filter message_of ys"
  by (simp add: List.map_filter_def)


lemma messages_fields [simp]:
  "messages (s\<lparr>current := c\<rparr>) = messages s"
  "messages (s\<lparr>inflatepending := p\<rparr>) = messages s"
  "messages (s\<lparr>inflatechunks := ch\<rparr>) = messages s"
  "messages (s\<lparr>inflatechunkslength := n\<rparr>) = messages s"
  "messages (s\<lparr>inflatelock := b\<rparr>) = messages s"
  by (simp_all add: messages_def)

lemma messages_append_body [simp]: "messages (append_body d s) = messages s"
  by (simp add: append_body_def)

lemma options_parseInflate [simp]: "options (parseInflate s) = options s"
  by (simp add: parseInflate_def Let_def do_effect_def split: list.splits)

lemma parseInflate_same [simp]:
  "typebuffer (parseInflate s) = typebuffer s"
  "events (parseInflate s) = events s"
  "isClosed (parseInflate s) = isClosed s"
  by (simp_all add: parseInflate_def Let_def do_effect_def split: list.splits)





lemma append_body_same [simp]:
  "typebuffer (append_body d s) = typebuffer s"
  "options (append_body d s) = options s"
  "events (append_body d s) = events s"
  by (simp_all add: append_body_def)





end
